theory Spec2Isabelle
  imports Complex_Main "HOL-Library.Word"
begin

section \<open>Exceptions and HTTP errors\<close>

text \<open>
  The service is a FastAPI application (\<^verbatim>\<open>src/api_code/main.py\<close>). Every handler wraps its
  body in \<^verbatim>\<open>try ... except Exception\<close>. An exception is a value: \<open>exn\<close> holds the Python
  exceptions that the builtins, the libraries and the database driver raise in the handlers
  modelled here, and \<open>error\<close> adds \<^verbatim>\<open>HTTPException(status, detail)\<close>, which is itself a
  subclass of \<^verbatim>\<open>Exception\<close> and is therefore caught by \<^verbatim>\<open>except Exception\<close> too.
  A handler's result \<open>Inl (HTTPException s d)\<close> is the HTTP error response with status \<open>s\<close>;
  \<open>Inl (Raised e)\<close> is an exception that escapes the handler (the framework answers 500).

  The texts of the source contain accented letters and emoji; they are written here in
  ASCII (for instance \<^verbatim>\<open>Codigo incorrecto.\<close>).
\<close>

datatype exn =
    AttributeError
  | UnicodeEncodeError
  | UnicodeDecodeError
  | ValueError
  | OverflowError
  | CardinalityViolation

datatype detail =
    Text string
  | ErrorStr exn  \<comment> \<open>the f-string \<^verbatim>\<open>f"Error: {str(e)}"\<close>\<close>

datatype error =
    HTTPException nat detail
  | Raised exn

section \<open>Strings, bytes and UTF-8\<close>

text \<open>
  A password and a password hash are Python \<^verbatim>\<open>str\<close> values whose encoding matters, so they
  are lists of Unicode code points (\<open>0 .. 0x10FFFF\<close>); \<^verbatim>\<open>bytes\<close> are lists of 8-bit words.
  Slicing \<^verbatim>\<open>s[:72]\<close> is \<open>take 72\<close> on the code points. \<^verbatim>\<open>str.encode('utf-8')\<close> raises
  \<^verbatim>\<open>UnicodeEncodeError\<close> on a surrogate code point. Text whose encoding plays no role
  (names, e-mail addresses, messages) is a \<open>string\<close>.
\<close>

type_synonym ustr = "nat list"
type_synonym byte = "8 word"

definition utf8_char :: "nat \<Rightarrow> exn + byte list" where
  "utf8_char c =
     (if c < 0x80 then Inr [of_nat c]
      else if c < 0x800 then Inr [of_nat (0xC0 + c div 64), of_nat (0x80 + c mod 64)]
      else if 0xD800 \<le> c \<and> c < 0xE000 then Inl UnicodeEncodeError
      else if c < 0x10000 then
        Inr [of_nat (0xE0 + c div 4096), of_nat (0x80 + c div 64 mod 64),
             of_nat (0x80 + c mod 64)]
      else if c < 0x110000 then
        Inr [of_nat (0xF0 + c div 262144), of_nat (0x80 + c div 4096 mod 64),
             of_nat (0x80 + c div 64 mod 64), of_nat (0x80 + c mod 64)]
      else Inl UnicodeEncodeError)"

fun utf8_encode :: "ustr \<Rightarrow> exn + byte list" where
  "utf8_encode [] = Inr []"
| "utf8_encode (c # cs) =
     (case utf8_char c of
        Inl e \<Rightarrow> Inl e
      | Inr bs \<Rightarrow> (case utf8_encode cs of Inl e \<Rightarrow> Inl e | Inr rest \<Rightarrow> Inr (bs @ rest)))"

text \<open>
  \<^verbatim>\<open>bytes.decode('utf-8')\<close> in strict mode: \<open>utf8_first b0 bs\<close> reads the code point that
  starts with the byte \<open>b0\<close> and returns it with the number of continuation bytes it took
  from \<open>bs\<close>; overlong forms, surrogates and values above \<open>0x10FFFF\<close> are rejected.
\<close>

definition is_cont :: "byte \<Rightarrow> bool" where
  "is_cont b = (0x80 \<le> unat b \<and> unat b < 0xC0)"

definition utf8_first :: "byte \<Rightarrow> byte list \<Rightarrow> exn + (nat \<times> nat)" where
  "utf8_first b0 bs =
     (let n0 = unat b0 in
      if n0 < 0x80 then Inr (n0, 0)
      else if n0 < 0xC0 then Inl UnicodeDecodeError
      else if n0 < 0xE0 then
        (case bs of
           b1 # _ \<Rightarrow>
             (let c = (n0 - 0xC0) * 64 + (unat b1 - 0x80) in
              if is_cont b1 \<and> 0x80 \<le> c then Inr (c, 1) else Inl UnicodeDecodeError)
         | _ \<Rightarrow> Inl UnicodeDecodeError)
      else if n0 < 0xF0 then
        (case bs of
           b1 # b2 # _ \<Rightarrow>
             (let c = (n0 - 0xE0) * 4096 + (unat b1 - 0x80) * 64 + (unat b2 - 0x80) in
              if is_cont b1 \<and> is_cont b2 \<and> 0x800 \<le> c \<and> (c < 0xD800 \<or> 0xE000 \<le> c)
              then Inr (c, 2) else Inl UnicodeDecodeError)
         | _ \<Rightarrow> Inl UnicodeDecodeError)
      else if n0 < 0xF8 then
        (case bs of
           b1 # b2 # b3 # _ \<Rightarrow>
             (let c = (n0 - 0xF0) * 262144 + (unat b1 - 0x80) * 4096
                      + (unat b2 - 0x80) * 64 + (unat b3 - 0x80) in
              if is_cont b1 \<and> is_cont b2 \<and> is_cont b3 \<and> 0x10000 \<le> c \<and> c < 0x110000
              then Inr (c, 3) else Inl UnicodeDecodeError)
         | _ \<Rightarrow> Inl UnicodeDecodeError)
      else Inl UnicodeDecodeError)"

function utf8_decode :: "byte list \<Rightarrow> exn + ustr" where
  "utf8_decode [] = Inr []"
| "utf8_decode (b0 # bs) =
     (case utf8_first b0 bs of
        Inl e \<Rightarrow> Inl e
      | Inr (c, k) \<Rightarrow>
          (case utf8_decode (drop k bs) of Inl e \<Rightarrow> Inl e | Inr cs \<Rightarrow> Inr (c # cs)))"
  by pat_completeness auto
termination
  by (relation "measure length") auto

section \<open>Password helpers\<close>

text \<open>
  The \<^verbatim>\<open>bcrypt\<close> package is a dependency, not part of the repository, so its three
  functions are parameters: \<open>gensalt\<close> is the salt that the call draws, \<open>hashpw\<close> and
  \<open>checkpw\<close> may raise (\<^verbatim>\<open>ValueError\<close> on a malformed salt or hash, for instance).
\<close>

record bcrypt =
  gensalt :: "byte list"
  hashpw :: "byte list \<Rightarrow> byte list \<Rightarrow> exn + byte list"
  checkpw :: "byte list \<Rightarrow> byte list \<Rightarrow> exn + bool"

text \<open>
  \<open>password_bytes\<close> is the argument both helpers hand to bcrypt:
  \<^verbatim>\<open>password_plana[:72].encode('utf-8')\<close>.
\<close>

definition password_bytes :: "ustr \<Rightarrow> exn + byte list" where
  "password_bytes password_plana = utf8_encode (take 72 password_plana)"

definition encriptar_password :: "bcrypt \<Rightarrow> ustr \<Rightarrow> exn + ustr" where
  "encriptar_password bc password_plana =
     (case password_bytes password_plana of
        Inl e \<Rightarrow> Inl e
      | Inr pb \<Rightarrow>
          (let salt = gensalt bc in
           case hashpw bc pb salt of
             Inl e \<Rightarrow> Inl e
           | Inr hashed \<Rightarrow> utf8_decode hashed))"

definition verificar_password :: "bcrypt \<Rightarrow> ustr \<Rightarrow> ustr \<Rightarrow> exn + bool" where
  "verificar_password bc password_plana password_hash =
     (case password_bytes password_plana of
        Inl e \<Rightarrow> Inl e
      | Inr pb \<Rightarrow>
          (case utf8_encode password_hash of
             Inl e \<Rightarrow> Inl e
           | Inr hash_bytes \<Rightarrow> checkpw bc pb hash_bytes))"

section \<open>The relational store\<close>

text \<open>
  The schema is not part of the repository; the tables are known through the SQL of the
  handlers. A table is the list of its rows, a row a record of the columns that the
  handlers modelled here read or write. Identifiers are kept in their text form (the
  requests carry them as \<^verbatim>\<open>str\<close>) and are taken to be well formed for the key column.
  A nullable column is an \<open>option\<close>. Python floats and SQL numerics that are only stored
  and handed back are real numbers; a timestamp is the number of microseconds since
  0001-01-01T00:00:00 on the wall clock (\<^verbatim>\<open>replace(tzinfo=None)\<close> keeps the wall clock).
\<close>

type_synonym ident = string
type_synonym datetime = int

record usuario =
  u_id :: ident
  u_nombre :: string
  u_apellidos :: string
  u_correo_electronico :: string
  u_password_hash :: ustr
  u_telefono :: string
  u_foto_perfil_url :: "string option"
  u_es_admin :: bool
  u_activo :: bool
  u_codigo_verificacion :: "string option"
  u_bloqueado_hasta :: "datetime option"

record detalle_cliente =
  dc_usuario_id :: ident
  dc_calle :: string
  dc_colonia :: string
  dc_codigo_postal :: string
  dc_ciudad :: string
  dc_numero_exterior :: string
  dc_numero_interior :: "string option"
  dc_referencias_domicilio :: "string option"
  dc_latitud :: "real option"
  dc_longitud :: "real option"

record detalle_trabajador =
  dt_usuario_id :: ident
  dt_calificacion_promedio :: real
  dt_total_evaluaciones :: int
  dt_validado_por_admin :: bool

record servicio =
  s_id :: ident
  s_trabajador_id :: "ident option"
  s_estado :: string
  s_precio_estimado :: "real option"
  s_calificacion :: "int option"
  s_resena :: "string option"

record propuesta =
  p_id :: ident
  p_servicio_id :: ident
  p_trabajador_id :: ident
  p_precio_oferta :: real
  p_mensaje :: string
  p_aceptada :: bool

record db =
  usuarios :: "usuario list"
  detalles_cliente :: "detalle_cliente list"
  detalles_trabajador :: "detalle_trabajador list"
  servicios :: "servicio list"
  propuestas :: "propuesta list"

text \<open>
  The process keeps one psycopg2 connection in \<^verbatim>\<open>db_connections["pg_conn"]\<close>. Statements
  run in a transaction that \<^verbatim>\<open>commit()\<close> makes durable and \<^verbatim>\<open>rollback()\<close> discards:
  \<open>committed\<close> is the durable content, \<open>working\<close> what the statements of the open
  transaction see and change. \<^verbatim>\<open>db_connections.get("pg_conn")\<close> is \<open>None\<close> when the
  connection was never established.
\<close>

record pg_conn =
  committed :: db
  working :: db

definition execute :: "(db \<Rightarrow> db) \<Rightarrow> pg_conn \<Rightarrow> pg_conn" where
  "execute stmt c = c\<lparr>working := stmt (working c)\<rparr>"

definition commit :: "pg_conn \<Rightarrow> pg_conn" where
  "commit c = c\<lparr>committed := working c\<rparr>"

definition rollback :: "pg_conn \<Rightarrow> pg_conn" where
  "rollback c = c\<lparr>working := committed c\<rparr>"

text \<open>\<^verbatim>\<open>UPDATE t SET ... WHERE cond\<close> rewrites every row that satisfies \<open>cond\<close>.\<close>

definition sql_update :: "('r \<Rightarrow> bool) \<Rightarrow> ('r \<Rightarrow> 'r) \<Rightarrow> 'r list \<Rightarrow> 'r list" where
  "sql_update cond upd rows = map (\<lambda>r. if cond r then upd r else r) rows"

text \<open>\<^verbatim>\<open>cursor.fetchone()\<close> after a \<^verbatim>\<open>SELECT ... WHERE cond\<close>: the first row, or \<open>None\<close>.\<close>

definition fetchone :: "('r \<Rightarrow> bool) \<Rightarrow> 'r list \<Rightarrow> 'r option" where
  "fetchone cond rows = (case filter cond rows of [] \<Rightarrow> None | r # _ \<Rightarrow> Some r)"

text \<open>
  psycopg2 adapts a \<^verbatim>\<open>str\<close> parameter of \<^verbatim>\<open>cursor.execute\<close> to a quoted literal before it
  sends the statement, and raises \<^verbatim>\<open>ValueError\<close> when the string holds the character NUL.
  The free texts that reach a statement (\<^verbatim>\<open>mensaje\<close>, \<^verbatim>\<open>resena\<close>) go through \<open>adapt_str\<close>;
  identifiers are well formed for their key column, as said above.
\<close>

definition adapt_str :: "string \<Rightarrow> exn + string" where
  "adapt_str s = (if CHR 0x00 \<in> set s then Inl ValueError else Inr s)"

section \<open>Request models\<close>

record DatosVerificacion =
  dv_correo :: string
  dv_codigo :: string

record LoginRequest =
  lr_correo :: string
  lr_password :: ustr

text \<open>
  \<^verbatim>\<open>PerfilClienteUpdate\<close> declares exactly these nine fields. It declares no
  \<^verbatim>\<open>correo_electronico\<close>, \<^verbatim>\<open>numero_exterior\<close>, \<^verbatim>\<open>numero_interior\<close>, \<^verbatim>\<open>referencias\<close>,
  \<^verbatim>\<open>latitud\<close> or \<^verbatim>\<open>longitud\<close>.
\<close>

record PerfilClienteUpdate =
  pc_nombre :: string
  pc_apellidos :: string
  pc_telefono :: string
  pc_calle :: string
  pc_colonia :: string
  pc_codigo_postal :: string
  pc_ciudad :: string
  pc_foto_perfil_url :: "string option"
  pc_password_nuevo :: "ustr option"

record CrearPropuesta =
  cp_servicio_id :: ident
  cp_trabajador_id :: ident
  cp_precio_oferta :: real
  cp_mensaje :: string

record AceptarPropuesta =
  ap_servicio_id :: ident
  ap_trabajador_id :: ident
  ap_propuesta_id :: ident

record CalificarServicio =
  cs_servicio_id :: ident
  cs_calificacion :: int
  cs_resena :: string

text \<open>\<^verbatim>\<open>dias_bloqueo: Optional[int] = 0\<close>: a request that leaves the field out carries 0.\<close>

record AccionAdmin =
  aa_usuario_id :: ident
  aa_accion :: string
  aa_dias_bloqueo :: "int option"

definition AccionAdmin_default_dias_bloqueo :: "int option" where
  "AccionAdmin_default_dias_bloqueo = Some 0"

text \<open>
  Reading an attribute of a request object: \<open>getattr name field\<close>, where \<open>field\<close> is the
  declared field of that name, or \<open>None\<close> where the class declares none; pydantic then
  raises \<^verbatim>\<open>AttributeError\<close>.
\<close>

definition getattr :: "string \<Rightarrow> 'a option \<Rightarrow> exn + 'a" where
  "getattr name field = (case field of None \<Rightarrow> Inl AttributeError | Some v \<Rightarrow> Inr v)"

definition bind_exn :: "exn + 'a \<Rightarrow> ('a \<Rightarrow> exn + 'b) \<Rightarrow> exn + 'b" where
  "bind_exn x f = (case x of Inl e \<Rightarrow> Inl e | Inr v \<Rightarrow> f v)"

section \<open>Identity and authentication\<close>

subsection \<open>\<^verbatim>\<open>POST /verificar-cuenta\<close>\<close>

definition verificar_cuenta_try :: "pg_conn \<Rightarrow> DatosVerificacion \<Rightarrow> (error + string) \<times> pg_conn" where
  "verificar_cuenta_try c datos =
     (case fetchone (\<lambda>u. u_correo_electronico u = dv_correo datos) (usuarios (working c)) of
        None \<Rightarrow> (Inl (HTTPException 404 (Text ''Usuario no encontrado.'')), c)
      | Some u \<Rightarrow>
          if u_activo u then (Inr ''Cuenta ya activa.'', c)
          else if u_codigo_verificacion u = Some (dv_codigo datos) then
            (Inr ''Cuenta activada!'',
             commit (execute (\<lambda>d. d\<lparr>usuarios :=
               sql_update (\<lambda>r. u_id r = u_id u) (\<lambda>r. r\<lparr>u_activo := True\<rparr>) (usuarios d)\<rparr>) c))
          else (Inl (HTTPException 400 (Text ''Codigo incorrecto.'')), c))"

text \<open>
  The handler: \<^verbatim>\<open>except Exception as e: conn.rollback(); log.error(e);
  raise HTTPException(500, "Error interno.")\<close>. With no connection, \<^verbatim>\<open>conn.cursor()\<close>
  raises inside the \<^verbatim>\<open>try\<close> and \<^verbatim>\<open>conn.rollback()\<close> raises again inside the handler.
\<close>

definition verificar_cuenta ::
  "pg_conn option \<Rightarrow> DatosVerificacion \<Rightarrow> (error + string) \<times> pg_conn option" where
  "verificar_cuenta pg datos =
     (case pg of
        None \<Rightarrow> (Inl (Raised AttributeError), None)
      | Some c \<Rightarrow>
          (case verificar_cuenta_try c datos of
             (Inr r, c') \<Rightarrow> (Inr r, Some c')
           | (Inl e, c') \<Rightarrow>
               (Inl (HTTPException 500 (Text ''Error interno.'')), Some (rollback c'))))"

subsection \<open>\<^verbatim>\<open>POST /login\<close>\<close>

record login_usuario =
  lu_id :: string
  lu_nombre :: string
  lu_es_admin :: bool
  lu_es_trabajador :: bool

text \<open>
  \<open>now\<close> is the value of \<^verbatim>\<open>datetime.now()\<close>. The condition
  \<^verbatim>\<open>not u or not u['activo'] or not verificar_password(...)\<close> is evaluated left to right.
\<close>

definition login_try ::
  "bcrypt \<Rightarrow> datetime \<Rightarrow> pg_conn \<Rightarrow> LoginRequest \<Rightarrow> error + login_usuario" where
  "login_try bc now c datos =
     (case fetchone (\<lambda>u. u_correo_electronico u = lr_correo datos) (usuarios (working c)) of
        None \<Rightarrow> Inl (HTTPException 401 (Text ''Credenciales incorrectas o inactiva.''))
      | Some u \<Rightarrow>
          if u_activo u then
            (case verificar_password bc (lr_password datos) (u_password_hash u) of
               Inl e \<Rightarrow> Inl (Raised e)
             | Inr ok \<Rightarrow>
                 if ok then
                   (if (case u_bloqueado_hasta u of None \<Rightarrow> False | Some bloqueo \<Rightarrow> bloqueo > now)
                    then Inl (HTTPException 403 (Text ''Cuenta bloqueada.''))
                    else
                      (let es_trabajador =
                         (fetchone (\<lambda>t. dt_usuario_id t = u_id u)
                            (detalles_trabajador (working c)) \<noteq> None)
                       in Inr \<lparr>lu_id = u_id u, lu_nombre = u_nombre u,
                               lu_es_admin = u_es_admin u, lu_es_trabajador = es_trabajador\<rparr>))
                 else Inl (HTTPException 401 (Text ''Credenciales incorrectas o inactiva.'')))
          else Inl (HTTPException 401 (Text ''Credenciales incorrectas o inactiva.'')))"

text \<open>
  The handler: \<^verbatim>\<open>except Exception as e: log.error(e); raise HTTPException(500,
  "Error interno")\<close>; it does not touch the connection, which the body only reads.
\<close>

definition login ::
  "bcrypt \<Rightarrow> datetime \<Rightarrow> pg_conn option \<Rightarrow> LoginRequest \<Rightarrow> error + login_usuario" where
  "login bc now pg datos =
     (case pg of
        None \<Rightarrow> Inl (HTTPException 500 (Text ''Error interno''))
      | Some c \<Rightarrow>
          (case login_try bc now c datos of
             Inr r \<Rightarrow> Inr r
           | Inl e \<Rightarrow> Inl (HTTPException 500 (Text ''Error interno''))))"

section \<open>Profile management\<close>

subsection \<open>\<^verbatim>\<open>PUT /mi-perfil-cliente/{usuario_id}\<close>\<close>

text \<open>
  Python evaluates the argument tuple of \<^verbatim>\<open>cur.execute\<close> left to right before the call;
  the first attribute that raises ends the \<^verbatim>\<open>try\<close> body.
\<close>

definition usuarios_args ::
  "PerfilClienteUpdate \<Rightarrow> exn + (string \<times> string \<times> string \<times> string \<times> string option)" where
  "usuarios_args d =
     bind_exn (getattr ''nombre'' (Some (pc_nombre d))) (\<lambda>nombre.
     bind_exn (getattr ''apellidos'' (Some (pc_apellidos d))) (\<lambda>apellidos.
     bind_exn (getattr ''telefono'' (Some (pc_telefono d))) (\<lambda>telefono.
     bind_exn (getattr ''correo_electronico'' None) (\<lambda>correo_electronico.
     bind_exn (getattr ''foto_perfil_url'' (Some (pc_foto_perfil_url d))) (\<lambda>foto_perfil_url.
     Inr (nombre, apellidos, telefono, correo_electronico, foto_perfil_url))))))"

definition update_usuarios ::
  "string \<times> string \<times> string \<times> string \<times> string option \<Rightarrow> ustr option \<Rightarrow> ident \<Rightarrow> db \<Rightarrow> db" where
  "update_usuarios args h usuario_id d =
     (case args of (nombre, apellidos, telefono, correo_electronico, foto_perfil_url) \<Rightarrow>
        d\<lparr>usuarios := sql_update (\<lambda>r. u_id r = usuario_id)
             (\<lambda>r. r\<lparr>u_nombre := nombre, u_apellidos := apellidos, u_telefono := telefono,
                    u_correo_electronico := correo_electronico,
                    u_foto_perfil_url := foto_perfil_url,
                    u_password_hash := (case h of None \<Rightarrow> u_password_hash r | Some v \<Rightarrow> v)\<rparr>)
             (usuarios d)\<rparr>)"

definition detalles_cliente_args ::
  "PerfilClienteUpdate \<Rightarrow>
   exn + (string \<times> string \<times> string \<times> string \<times> string \<times> string option \<times> string option
          \<times> real option \<times> real option)" where
  "detalles_cliente_args d =
     bind_exn (getattr ''calle'' (Some (pc_calle d))) (\<lambda>calle.
     bind_exn (getattr ''colonia'' (Some (pc_colonia d))) (\<lambda>colonia.
     bind_exn (getattr ''codigo_postal'' (Some (pc_codigo_postal d))) (\<lambda>codigo_postal.
     bind_exn (getattr ''ciudad'' (Some (pc_ciudad d))) (\<lambda>ciudad.
     bind_exn (getattr ''numero_exterior'' None) (\<lambda>numero_exterior.
     bind_exn (getattr ''numero_interior'' None) (\<lambda>numero_interior.
     bind_exn (getattr ''referencias'' None) (\<lambda>referencias.
     bind_exn (getattr ''latitud'' None) (\<lambda>latitud.
     bind_exn (getattr ''longitud'' None) (\<lambda>longitud.
     Inr (calle, colonia, codigo_postal, ciudad, numero_exterior, numero_interior,
          referencias, latitud, longitud))))))))))"

definition update_detalles_cliente ::
  "string \<times> string \<times> string \<times> string \<times> string \<times> string option \<times> string option
     \<times> real option \<times> real option \<Rightarrow> ident \<Rightarrow> db \<Rightarrow> db" where
  "update_detalles_cliente args usuario_id d =
     (case args of
        (calle, colonia, codigo_postal, ciudad, numero_exterior, numero_interior,
         referencias, latitud, longitud) \<Rightarrow>
        d\<lparr>detalles_cliente := sql_update (\<lambda>r. dc_usuario_id r = usuario_id)
             (\<lambda>r. r\<lparr>dc_calle := calle, dc_colonia := colonia,
                    dc_codigo_postal := codigo_postal, dc_ciudad := ciudad,
                    dc_numero_exterior := numero_exterior,
                    dc_numero_interior := numero_interior,
                    dc_referencias_domicilio := referencias,
                    dc_latitud := latitud, dc_longitud := longitud\<rparr>)
             (detalles_cliente d)\<rparr>)"

text \<open>
  \<^verbatim>\<open>if d.password_nuevo:\<close> holds for a non-empty string. The first statement is the
  \<^verbatim>\<open>UPDATE usuarios\<close> with or without \<^verbatim>\<open>password_hash\<close>, the second the
  \<^verbatim>\<open>UPDATE detalles_cliente\<close>, then \<^verbatim>\<open>conn.commit()\<close>.
\<close>

definition update_perfil_cliente_try ::
  "bcrypt \<Rightarrow> pg_conn \<Rightarrow> ident \<Rightarrow> PerfilClienteUpdate \<Rightarrow> (exn + string) \<times> pg_conn" where
  "update_perfil_cliente_try bc c usuario_id d =
     (case
        (case (case pc_password_nuevo d of None \<Rightarrow> None | Some p \<Rightarrow> if p = [] then None else Some p) of
           Some password_nuevo \<Rightarrow>
             bind_exn (encriptar_password bc password_nuevo) (\<lambda>h.
             bind_exn (usuarios_args d) (\<lambda>args.
             Inr (execute (update_usuarios args (Some h) usuario_id) c)))
         | None \<Rightarrow>
             bind_exn (usuarios_args d) (\<lambda>args.
             Inr (execute (update_usuarios args None usuario_id) c)))
      of
        Inl e \<Rightarrow> (Inl e, c)
      | Inr c1 \<Rightarrow>
          (case detalles_cliente_args d of
             Inl e \<Rightarrow> (Inl e, c1)
           | Inr args \<Rightarrow>
               (Inr ''Perfil actualizado'',
                commit (execute (update_detalles_cliente args usuario_id) c1))))"

text \<open>
  The handler: \<^verbatim>\<open>except Exception as e: conn.rollback(); log.error(e);
  raise HTTPException(500, "Error update")\<close>.
\<close>

definition update_perfil_cliente ::
  "bcrypt \<Rightarrow> pg_conn option \<Rightarrow> ident \<Rightarrow> PerfilClienteUpdate
   \<Rightarrow> (error + string) \<times> pg_conn option" where
  "update_perfil_cliente bc pg usuario_id d =
     (case pg of
        None \<Rightarrow> (Inl (Raised AttributeError), None)
      | Some c \<Rightarrow>
          (case update_perfil_cliente_try bc c usuario_id d of
             (Inr r, c') \<Rightarrow> (Inr r, Some c')
           | (Inl e, c') \<Rightarrow>
               (Inl (HTTPException 500 (Text ''Error update'')), Some (rollback c'))))"

section \<open>Marketplace workflow\<close>

subsection \<open>\<^verbatim>\<open>POST /propuestas\<close>\<close>

text \<open>
  The \<^verbatim>\<open>INSERT INTO propuestas\<close> names four columns; the store fills in \<^verbatim>\<open>id\<close> and
  \<^verbatim>\<open>aceptada\<close> from defaults that the schema declares. They are parameters.
\<close>

record propuesta_defaults =
  pd_id :: ident
  pd_aceptada :: bool

definition insert_propuesta ::
  "propuesta_defaults \<Rightarrow> CrearPropuesta \<Rightarrow> string \<Rightarrow> db \<Rightarrow> db" where
  "insert_propuesta df datos mensaje d =
     d\<lparr>propuestas := propuestas d @
        [\<lparr>p_id = pd_id df, p_servicio_id = cp_servicio_id datos,
          p_trabajador_id = cp_trabajador_id datos, p_precio_oferta = cp_precio_oferta datos,
          p_mensaje = mensaje, p_aceptada = pd_aceptada df\<rparr>]\<rparr>"

text \<open>
  The \<^verbatim>\<open>SELECT\<close> takes the two identifiers; the \<^verbatim>\<open>INSERT\<close> also takes \<^verbatim>\<open>mensaje\<close>, whose
  adaptation may raise, in which case nothing is sent to the store.
\<close>

definition crear_propuesta_try ::
  "propuesta_defaults \<Rightarrow> pg_conn \<Rightarrow> CrearPropuesta \<Rightarrow> (error + string) \<times> pg_conn" where
  "crear_propuesta_try df c datos =
     (case fetchone (\<lambda>p. p_servicio_id p = cp_servicio_id datos
                          \<and> p_trabajador_id p = cp_trabajador_id datos)
             (propuestas (working c)) of
        Some _ \<Rightarrow> (Inl (HTTPException 400 (Text ''Ya te has postulado.'')), c)
      | None \<Rightarrow>
          (case adapt_str (cp_mensaje datos) of
             Inl e \<Rightarrow> (Inl (Raised e), c)
           | Inr mensaje \<Rightarrow>
               (Inr ''Propuesta enviada'',
                commit (execute (insert_propuesta df datos mensaje) c))))"

text \<open>
  The handler has two clauses: \<^verbatim>\<open>except HTTPException as e: raise e\<close>, then
  \<^verbatim>\<open>except Exception as e: conn.rollback(); log.error(e); raise HTTPException(500,
  "Error propuesta")\<close>.
\<close>

definition crear_propuesta ::
  "propuesta_defaults \<Rightarrow> pg_conn option \<Rightarrow> CrearPropuesta
   \<Rightarrow> (error + string) \<times> pg_conn option" where
  "crear_propuesta df pg datos =
     (case pg of
        None \<Rightarrow> (Inl (Raised AttributeError), None)
      | Some c \<Rightarrow>
          (case crear_propuesta_try df c datos of
             (Inr r, c') \<Rightarrow> (Inr r, Some c')
           | (Inl (HTTPException st dt), c') \<Rightarrow> (Inl (HTTPException st dt), Some c')
           | (Inl (Raised e), c') \<Rightarrow>
               (Inl (HTTPException 500 (Text ''Error propuesta'')), Some (rollback c'))))"

subsection \<open>\<^verbatim>\<open>POST /servicios/contratar\<close>\<close>

text \<open>
  The first statement is \<^verbatim>\<open>UPDATE servicios SET trabajador_id = %s, estado = 'EN_PROCESO',
  precio_estimado = (SELECT precio_oferta FROM propuestas WHERE id = %s) WHERE id = %s\<close>.
  The scalar subquery is NULL when no proposal has the id; the store rejects it when it
  yields more than one row and a row of \<^verbatim>\<open>servicios\<close> needs its value. The second
  statement is \<^verbatim>\<open>UPDATE propuestas SET aceptada = TRUE WHERE id = %s\<close>.
\<close>

definition update_servicios_contratar :: "AceptarPropuesta \<Rightarrow> real option \<Rightarrow> db \<Rightarrow> db" where
  "update_servicios_contratar datos precio d =
     d\<lparr>servicios := sql_update (\<lambda>s. s_id s = ap_servicio_id datos)
          (\<lambda>s. s\<lparr>s_trabajador_id := Some (ap_trabajador_id datos),
                 s_estado := ''EN_PROCESO'', s_precio_estimado := precio\<rparr>)
          (servicios d)\<rparr>"

definition update_propuestas_aceptada :: "AceptarPropuesta \<Rightarrow> db \<Rightarrow> db" where
  "update_propuestas_aceptada datos d =
     d\<lparr>propuestas := sql_update (\<lambda>p. p_id p = ap_propuesta_id datos)
          (\<lambda>p. p\<lparr>p_aceptada := True\<rparr>) (propuestas d)\<rparr>"

definition contratar_trabajador_try ::
  "pg_conn \<Rightarrow> AceptarPropuesta \<Rightarrow> (exn + string) \<times> pg_conn" where
  "contratar_trabajador_try c datos =
     (let ofertas = map p_precio_oferta
            (filter (\<lambda>p. p_id p = ap_propuesta_id datos) (propuestas (working c)));
          filas = filter (\<lambda>s. s_id s = ap_servicio_id datos) (servicios (working c))
      in if filas \<noteq> [] \<and> 1 < length ofertas then (Inl CardinalityViolation, c)
         else
           (let precio = (case ofertas of [] \<Rightarrow> None | x # _ \<Rightarrow> Some x);
                c1 = execute (update_servicios_contratar datos precio) c;
                c2 = execute (update_propuestas_aceptada datos) c1
            in (Inr ''Contratado!'', commit c2)))"

text \<open>
  The handler: \<^verbatim>\<open>except Exception as e: conn.rollback(); log.error(e);
  raise HTTPException(500, "Error contratar")\<close>.
\<close>

definition contratar_trabajador ::
  "pg_conn option \<Rightarrow> AceptarPropuesta \<Rightarrow> (error + string) \<times> pg_conn option" where
  "contratar_trabajador pg datos =
     (case pg of
        None \<Rightarrow> (Inl (Raised AttributeError), None)
      | Some c \<Rightarrow>
          (case contratar_trabajador_try c datos of
             (Inr r, c') \<Rightarrow> (Inr r, Some c')
           | (Inl e, c') \<Rightarrow>
               (Inl (HTTPException 500 (Text ''Error contratar'')), Some (rollback c'))))"

subsection \<open>\<^verbatim>\<open>POST /servicios/finalizar\<close>\<close>

text \<open>
  \<^verbatim>\<open>SELECT AVG(calificacion) as pro, COUNT(*) as tot FROM servicios WHERE trabajador_id = %s
  AND calificacion IS NOT NULL\<close>: \<open>calificaciones\<close> lists the ratings that the query
  aggregates. A NULL worker id equals no row. \<^verbatim>\<open>AVG\<close> of no row is NULL.

  The store returns the average as a numeric: the sum divided by the count and rounded at
  a scale that follows from the column's type, which the schema declares. Python's
  \<^verbatim>\<open>float(...)\<close> then rounds that decimal to the nearest double. Neither rounding is part
  of the repository, so both are parameters: \<open>avg_numeric nm sum count\<close> is the numeric
  the store returns and \<open>py_float nm x\<close> the double for the decimal \<open>x\<close>.
\<close>

record numerics =
  avg_numeric :: "int \<Rightarrow> int \<Rightarrow> real"
  py_float :: "real \<Rightarrow> real"

definition calificaciones :: "ident option \<Rightarrow> servicio list \<Rightarrow> int list" where
  "calificaciones tid rows =
     (case tid of
        None \<Rightarrow> []
      | Some w \<Rightarrow> List.map_filter s_calificacion (filter (\<lambda>s. s_trabajador_id s = Some w) rows))"

definition sql_avg :: "numerics \<Rightarrow> int list \<Rightarrow> real option" where
  "sql_avg nm xs =
     (if xs = [] then None else Some (avg_numeric nm (sum_list xs) (int (length xs))))"

definition update_servicios_finalizar :: "CalificarServicio \<Rightarrow> string \<Rightarrow> db \<Rightarrow> db" where
  "update_servicios_finalizar datos resena d =
     d\<lparr>servicios := sql_update (\<lambda>s. s_id s = cs_servicio_id datos)
          (\<lambda>s. s\<lparr>s_estado := ''TERMINADO'', s_calificacion := Some (cs_calificacion datos),
                 s_resena := Some resena\<rparr>)
          (servicios d)\<rparr>"

definition update_detalles_trabajador_stats :: "ident option \<Rightarrow> real \<Rightarrow> int \<Rightarrow> db \<Rightarrow> db" where
  "update_detalles_trabajador_stats tid pro tot d =
     d\<lparr>detalles_trabajador := sql_update (\<lambda>r. Some (dt_usuario_id r) = tid)
          (\<lambda>r. r\<lparr>dt_calificacion_promedio := pro, dt_total_evaluaciones := tot\<rparr>)
          (detalles_trabajador d)\<rparr>"

text \<open>
  The first statement takes \<^verbatim>\<open>resena\<close>, whose adaptation may raise, in which case nothing
  is sent to the store. \<^verbatim>\<open>RETURNING trabajador_id\<close> with \<^verbatim>\<open>fetchone()\<close> gives the worker of
  the first updated row. In \<^verbatim>\<open>float(stats['pro'] or 0)\<close> a NULL or zero average is replaced
  by the integer 0, whose double is 0.
\<close>

definition finalizar_servicio_try ::
  "numerics \<Rightarrow> pg_conn \<Rightarrow> CalificarServicio \<Rightarrow> (error + string) \<times> pg_conn" where
  "finalizar_servicio_try nm c datos =
     (case adapt_str (cs_resena datos) of
        Inl e \<Rightarrow> (Inl (Raised e), c)
      | Inr resena \<Rightarrow>
          (let c1 = execute (update_servicios_finalizar datos resena) c in
           case fetchone (\<lambda>s. s_id s = cs_servicio_id datos) (servicios (working c1)) of
             None \<Rightarrow> (Inl (HTTPException 404 (Text ''Servicio no encontrado'')), c1)
           | Some res \<Rightarrow>
               (let tid = s_trabajador_id res;
                    rs = calificaciones tid (servicios (working c1));
                    pro = (case sql_avg nm rs of
                             None \<Rightarrow> 0
                           | Some a \<Rightarrow> if a = 0 then 0 else py_float nm a);
                    tot = int (length rs);
                    c2 = execute (update_detalles_trabajador_stats tid pro tot) c1
                in (Inr ''Finalizado y calificado'', commit c2))))"

text \<open>
  The handler: \<^verbatim>\<open>except Exception as e: conn.rollback(); log.error(e);
  raise HTTPException(500, "Error finalizar")\<close>.
\<close>

definition finalizar_servicio ::
  "numerics \<Rightarrow> pg_conn option \<Rightarrow> CalificarServicio
   \<Rightarrow> (error + string) \<times> pg_conn option" where
  "finalizar_servicio nm pg datos =
     (case pg of
        None \<Rightarrow> (Inl (Raised AttributeError), None)
      | Some c \<Rightarrow>
          (case finalizar_servicio_try nm c datos of
             (Inr r, c') \<Rightarrow> (Inr r, Some c')
           | (Inl e, c') \<Rightarrow>
               (Inl (HTTPException 500 (Text ''Error finalizar'')), Some (rollback c'))))"

section \<open>Admin console\<close>

text \<open>
  \<^verbatim>\<open>timedelta(days=dias)\<close> raises \<^verbatim>\<open>OverflowError\<close> beyond 999999999 days, and adding it
  to a \<^verbatim>\<open>datetime\<close> raises when the sum leaves the years 1 to 9999. A \<^verbatim>\<open>timedelta\<close> is a
  number of microseconds.
\<close>

definition timedelta_days :: "int \<Rightarrow> exn + int" where
  "timedelta_days dias =
     (if \<bar>dias\<bar> \<le> 999999999 then Inr (dias * 86400000000) else Inl OverflowError)"

definition datetime_max :: datetime where
  "datetime_max = 3652059 * 86400000000 - 1"

definition datetime_add :: "datetime \<Rightarrow> int \<Rightarrow> exn + datetime" where
  "datetime_add t td =
     (if 0 \<le> t + td \<and> t + td \<le> datetime_max then Inr (t + td) else Inl OverflowError)"

text \<open>
  Modelled from the spec: the schema, which declares what \<^verbatim>\<open>DELETE FROM usuarios\<close> does to
  the rows that reference the user, is not part of the repository; the spec has the delete
  remove the user row with "cascading deletes of detail rows assumed at the storage layer".
\<close>

definition delete_usuario :: "ident \<Rightarrow> db \<Rightarrow> db" where
  "delete_usuario uid d =
     d\<lparr>usuarios := filter (\<lambda>u. u_id u \<noteq> uid) (usuarios d),
       detalles_cliente := filter (\<lambda>r. dc_usuario_id r \<noteq> uid) (detalles_cliente d),
       detalles_trabajador := filter (\<lambda>r. dt_usuario_id r \<noteq> uid) (detalles_trabajador d)\<rparr>"

definition update_validado :: "ident \<Rightarrow> db \<Rightarrow> db" where
  "update_validado uid d =
     d\<lparr>detalles_trabajador := sql_update (\<lambda>r. dt_usuario_id r = uid)
          (\<lambda>r. r\<lparr>dt_validado_por_admin := True\<rparr>) (detalles_trabajador d)\<rparr>"

definition update_bloqueado_hasta :: "ident \<Rightarrow> datetime option \<Rightarrow> db \<Rightarrow> db" where
  "update_bloqueado_hasta uid v d =
     d\<lparr>usuarios := sql_update (\<lambda>u. u_id u = uid)
          (\<lambda>u. u\<lparr>u_bloqueado_hasta := v\<rparr>) (usuarios d)\<rparr>"

text \<open>
  \<^verbatim>\<open>dias = datos.dias_bloqueo if datos.dias_bloqueo else 36500\<close>: \<open>None\<close> and 0 are both
  false. An \<^verbatim>\<open>accion\<close> outside the four names runs no statement. \<open>now\<close> is the value of
  \<^verbatim>\<open>datetime.now()\<close>.
\<close>

definition admin_accion_usuario_try ::
  "datetime \<Rightarrow> pg_conn \<Rightarrow> AccionAdmin \<Rightarrow> (exn + string) \<times> pg_conn" where
  "admin_accion_usuario_try now c datos =
     (case
        (if aa_accion datos = ''validar'' then
           Inr (execute (update_validado (aa_usuario_id datos)) c)
         else if aa_accion datos = ''bloquear'' then
           (let dias = (case aa_dias_bloqueo datos of
                          None \<Rightarrow> 36500
                        | Some n \<Rightarrow> if n = 0 then 36500 else n)
            in bind_exn (timedelta_days dias) (\<lambda>td.
               bind_exn (datetime_add now td) (\<lambda>fecha_fin.
               Inr (execute (update_bloqueado_hasta (aa_usuario_id datos) (Some fecha_fin)) c))))
         else if aa_accion datos = ''desbloquear'' then
           Inr (execute (update_bloqueado_hasta (aa_usuario_id datos) None) c)
         else if aa_accion datos = ''borrar'' then
           Inr (execute (delete_usuario (aa_usuario_id datos)) c)
         else Inr c)
      of
        Inl e \<Rightarrow> (Inl e, c)
      | Inr c1 \<Rightarrow>
          (Inr (''Accion '' @ [CHR 0x27] @ aa_accion datos @ [CHR 0x27] @ '' ejecutada.''),
           commit c1))"

text \<open>
  The handler: \<^verbatim>\<open>except Exception as e: conn.rollback(); log.error(e);
  raise HTTPException(500, f"Error: {str(e)}")\<close>.
\<close>

definition admin_accion_usuario ::
  "datetime \<Rightarrow> pg_conn option \<Rightarrow> AccionAdmin \<Rightarrow> (error + string) \<times> pg_conn option" where
  "admin_accion_usuario now pg datos =
     (case pg of
        None \<Rightarrow> (Inl (Raised AttributeError), None)
      | Some c \<Rightarrow>
          (case admin_accion_usuario_try now c datos of
             (Inr r, c') \<Rightarrow> (Inr r, Some c')
           | (Inl e, c') \<Rightarrow> (Inl (HTTPException 500 (ErrorStr e)), Some (rollback c'))))"

section \<open>An example store\<close>

text \<open>
  A small store on which the theorems below are evaluated. \<open>ex_bcrypt\<close> stands in for the
  library: its hash of a password is the salt followed by the password bytes, and a
  password checks against a hash when the two are equal. \<open>ex_numerics\<close> stands in for the
  two roundings with none at all, which is what they do on the one average evaluated
  with it below: 12 divided by 3 is 4 at every scale, and 4 is a double. Ana is active and locked until
  the instant 2000; Beto is not yet active. The worker \<open>w1\<close> has two rated services (5 and
  3) and one in progress.
\<close>

definition ex_bcrypt :: bcrypt where
  "ex_bcrypt = \<lparr>gensalt = [], hashpw = (\<lambda>pb salt. Inr (salt @ pb)),
                checkpw = (\<lambda>pb h. Inr (pb = h))\<rparr>"

definition ex_numerics :: numerics where
  "ex_numerics = \<lparr>avg_numeric = (\<lambda>s n. real_of_int s / real_of_int n), py_float = (\<lambda>x. x)\<rparr>"

definition ex_ana :: usuario where
  "ex_ana = \<lparr>u_id = ''u1'', u_nombre = ''Ana'', u_apellidos = ''Ruiz'',
             u_correo_electronico = ''ana@x.mx'', u_password_hash = [0x73, 0x33],
             u_telefono = ''555'', u_foto_perfil_url = None, u_es_admin = False,
             u_activo = True, u_codigo_verificacion = None, u_bloqueado_hasta = Some 2000\<rparr>"

definition ex_beto :: usuario where
  "ex_beto = \<lparr>u_id = ''u2'', u_nombre = ''Beto'', u_apellidos = ''Paz'',
              u_correo_electronico = ''beto@x.mx'', u_password_hash = [0x78],
              u_telefono = ''556'', u_foto_perfil_url = None, u_es_admin = False,
              u_activo = False, u_codigo_verificacion = Some ''123456'',
              u_bloqueado_hasta = None\<rparr>"

definition ex_servicios :: "servicio list" where
  "ex_servicios =
     [\<lparr>s_id = ''s1'', s_trabajador_id = Some ''w1'', s_estado = ''TERMINADO'',
       s_precio_estimado = Some 100, s_calificacion = Some 5, s_resena = Some ''ok''\<rparr>,
      \<lparr>s_id = ''s2'', s_trabajador_id = Some ''w1'', s_estado = ''TERMINADO'',
       s_precio_estimado = Some 80, s_calificacion = Some 3, s_resena = Some ''ok''\<rparr>,
      \<lparr>s_id = ''s3'', s_trabajador_id = Some ''w1'', s_estado = ''EN_PROCESO'',
       s_precio_estimado = Some 90, s_calificacion = None, s_resena = None\<rparr>,
      \<lparr>s_id = ''s4'', s_trabajador_id = None, s_estado = ''SOLICITADO'',
       s_precio_estimado = None, s_calificacion = None, s_resena = None\<rparr>]"

definition ex_db :: db where
  "ex_db = \<lparr>usuarios = [ex_ana, ex_beto], detalles_cliente = [],
            detalles_trabajador =
              [\<lparr>dt_usuario_id = ''w1'', dt_calificacion_promedio = 4,
                dt_total_evaluaciones = 2, dt_validado_por_admin = False\<rparr>],
            servicios = ex_servicios,
            propuestas =
              [\<lparr>p_id = ''p1'', p_servicio_id = ''s4'', p_trabajador_id = ''w1'',
                p_precio_oferta = 250, p_mensaje = ''hola'', p_aceptada = False\<rparr>]\<rparr>"

definition ex_conn :: pg_conn where
  "ex_conn = \<lparr>committed = ex_db, working = ex_db\<rparr>"

definition ex_perfil :: PerfilClienteUpdate where
  "ex_perfil = \<lparr>pc_nombre = ''Ana'', pc_apellidos = ''Ruiz'', pc_telefono = ''555'',
                pc_calle = ''Sur 8'', pc_colonia = ''Centro'', pc_codigo_postal = ''06000'',
                pc_ciudad = ''CDMX'', pc_foto_perfil_url = None, pc_password_nuevo = None\<rparr>"

lemmas ex_defs =
  ex_bcrypt_def ex_numerics_def ex_ana_def ex_beto_def ex_servicios_def ex_db_def ex_conn_def ex_perfil_def

section \<open>Auxiliary facts\<close>

lemma utf8_encode_ascii:
  "(\<forall>c\<in>set p. c < 0x80) \<Longrightarrow> utf8_encode p = Inr (map of_nat p)"
  by (induction p) (simp_all add: utf8_char_def)

lemma utf8_encode_replicate_E9:
  "utf8_encode (replicate n 0xE9) = Inr (concat (replicate n [0xC3, 0xA9]))"
  by (induction n) (simp_all add: utf8_char_def)

lemma fetchone_None_iff: "fetchone P rows = None \<longleftrightarrow> filter P rows = []"
  by (simp add: fetchone_def split: list.splits)

lemma sql_update_none: "filter Q rows = [] \<Longrightarrow> sql_update Q f rows = rows"
  by (induction rows) (auto simp: sql_update_def split: if_splits)

text \<open>An update that leaves the selecting column alone does not change which rows a
  query selects.\<close>

lemma fetchone_sql_update:
  assumes inv: "\<And>r. P (f r) = P r"
  shows "fetchone P (sql_update Q f rows)
           = map_option (\<lambda>r. if Q r then f r else r) (fetchone P rows)"
proof -
  have "filter P (map (\<lambda>r. if Q r then f r else r) rows)
        = map (\<lambda>r. if Q r then f r else r) (filter P rows)"
    by (induction rows) (simp_all add: inv)
  then show ?thesis
    by (simp add: fetchone_def sql_update_def split: list.splits)
qed

lemma fetchone_sql_update_same:
  assumes inv: "\<And>r. Q (f r) = Q r"
  shows "fetchone Q (sql_update Q f rows) = map_option f (fetchone Q rows)"
proof -
  have "filter Q (map (\<lambda>r. if Q r then f r else r) rows) = map f (filter Q rows)"
    by (induction rows) (simp_all add: inv)
  then show ?thesis
    by (simp add: fetchone_def sql_update_def split: list.splits)
qed

lemma calificaciones_append:
  "calificaciones t (xs @ ys) = calificaciones t xs @ calificaciones t ys"
  by (simp add: calificaciones_def map_filter_def split: option.splits)

lemma filter_absent: "k \<notin> f ` set xs \<Longrightarrow> filter (\<lambda>x. f x = k) xs = []"
  by (induction xs) auto

lemma utf8_char_length:
  "utf8_char c = Inr bs \<Longrightarrow>
     1 \<le> length bs \<and> length bs \<le> 4 \<and> (0x80 \<le> c \<longrightarrow> 2 \<le> length bs)"
  by (auto simp: utf8_char_def split: if_splits)

lemma utf8_encode_length:
  "utf8_encode p = Inr bs \<Longrightarrow>
     length p \<le> length bs \<and> length bs \<le> 4 * length p
     \<and> ((\<exists>c\<in>set p. 0x80 \<le> c) \<longrightarrow> length p < length bs)"
proof (induction p arbitrary: bs)
  case Nil
  then show ?case by simp
next
  case (Cons c cs)
  from Cons.prems obtain b rest
    where b: "utf8_char c = Inr b" and rest: "utf8_encode cs = Inr rest" and bs: "bs = b @ rest"
    by (auto split: sum.splits)
  from utf8_char_length[OF b] Cons.IH[OF rest] show ?case
    unfolding bs by auto
qed

lemma calificaciones_eq:
  assumes "map s_calificacion
             (filter (\<lambda>x. s_trabajador_id x = Some w \<and> s_calificacion x \<noteq> None) rows)
           = map Some others"
  shows "calificaciones (Some w) rows = others"
proof -
  have c: "calificaciones (Some w) rows
        = map the (map s_calificacion
            (filter (\<lambda>x. s_trabajador_id x = Some w \<and> s_calificacion x \<noteq> None) rows))"
    by (simp add: calificaciones_def map_filter_def)
  show ?thesis unfolding c assms by (simp add: comp_def)
qed

text \<open>
  The body of the completion handler on a table that holds the completed service \<open>s\<close>
  once, between the rows \<open>xs\<close> and \<open>ys\<close>.
\<close>

lemma finalizar_servicio_try_split:
  assumes rows: "servicios (working c) = xs @ s # ys"
    and xs: "cs_servicio_id datos \<notin> s_id ` set xs"
    and ys: "cs_servicio_id datos \<notin> s_id ` set ys"
    and sid: "s_id s = cs_servicio_id datos"
    and w: "s_trabajador_id s = Some w"
    and nul: "CHR 0x00 \<notin> set (cs_resena datos)"
    and suma: "suma = sum_list (calificaciones (Some w) (xs @ ys)) + cs_calificacion datos"
    and n: "n = int (length (calificaciones (Some w) (xs @ ys))) + 1"
  shows "finalizar_servicio_try nm c datos =
     (Inr ''Finalizado y calificado'',
      commit (execute (update_detalles_trabajador_stats (Some w)
         (if avg_numeric nm suma n = 0 then 0 else py_float nm (avg_numeric nm suma n)) n)
        (execute (update_servicios_finalizar datos (cs_resena datos)) c)))"
proof -
  let ?s' = "s\<lparr>s_estado := ''TERMINADO'', s_calificacion := Some (cs_calificacion datos),
               s_resena := Some (cs_resena datos)\<rparr>"
  let ?Q = "\<lambda>r. s_id r = cs_servicio_id datos"
  have adapt: "adapt_str (cs_resena datos) = Inr (cs_resena datos)"
    using nul by (simp add: adapt_str_def)
  have upd: "servicios (working (execute (update_servicios_finalizar datos (cs_resena datos)) c))
       = xs @ ?s' # ys"
    using rows sid
    by (simp add: execute_def update_servicios_finalizar_def sql_update_def
        sql_update_none[unfolded sql_update_def, OF filter_absent[OF xs]]
        sql_update_none[unfolded sql_update_def, OF filter_absent[OF ys]])
  have fetch: "fetchone ?Q (xs @ ?s' # ys) = Some ?s'"
    using sid by (simp add: fetchone_def filter_absent[OF xs])
  have cal: "calificaciones (Some w) (xs @ ?s' # ys)
       = calificaciones (Some w) xs @ cs_calificacion datos # calificaciones (Some w) ys"
    using w by (simp add: calificaciones_def map_filter_def)
  have avg: "sql_avg nm (calificaciones (Some w) (xs @ ?s' # ys)) = Some (avg_numeric nm suma n)"
    unfolding cal suma n
    by (simp add: calificaciones_append sql_avg_def add.commute add.left_commute)
  have len: "int (length (calificaciones (Some w) (xs @ ?s' # ys))) = n"
    unfolding cal n by (simp add: calificaciones_append)
  show ?thesis
    unfolding finalizar_servicio_try_def adapt Let_def sum.case upd fetch
    using w by (simp add: avg len)
qed

section \<open>Claims\<close>

subsection \<open>Client profile update\<close>

text \<open>
  Claim C1 (client profile update applies both updates and succeeds). On the code, every
  client profile update on an established connection is answered with the error 500
  \<^verbatim>\<open>Error update\<close> and rolled back: the argument tuple of the first statement reads
  \<^verbatim>\<open>d.correo_electronico\<close>, which \<^verbatim>\<open>PerfilClienteUpdate\<close> does not declare, so no statement
  runs, whatever the request and whether or not it carries a new password.
\<close>

theorem update_perfil_cliente_always_500:
  "update_perfil_cliente bc (Some c) usuario_id d =
     (Inl (HTTPException 500 (Text ''Error update'')), Some (rollback c))"
proof -
  have args: "usuarios_args d = Inl AttributeError"
    by (simp add: usuarios_args_def bind_exn_def getattr_def)
  have "\<exists>e. update_perfil_cliente_try bc c usuario_id d = (Inl e, c)"
    by (auto simp: update_perfil_cliente_try_def args bind_exn_def
        split: option.splits sum.splits)
  then show ?thesis by (auto simp: update_perfil_cliente_def)
qed

text \<open>On the example store, Ana's well-formed request changes nothing.\<close>

theorem update_perfil_cliente_always_500_example:
  "update_perfil_cliente ex_bcrypt (Some ex_conn) ''u1'' ex_perfil =
     (Inl (HTTPException 500 (Text ''Error update'')), Some ex_conn)"
  using update_perfil_cliente_always_500 [of ex_bcrypt ex_conn "''u1''" ex_perfil]
  by (simp add: rollback_def ex_conn_def)

subsection \<open>Account verification\<close>

text \<open>
  Claim C2 (outcomes of account verification). On the code, the 404 raised for an unknown
  e-mail and the 400 raised for a wrong code of an inactive account are both caught by the
  handler's \<^verbatim>\<open>except Exception\<close> and answered as 500 \<^verbatim>\<open>Error interno.\<close>; a matching code
  of an inactive account activates it, commits and succeeds.
\<close>

theorem verificar_cuenta_outcomes:
  "(fetchone (\<lambda>u. u_correo_electronico u = dv_correo datos) (usuarios (working c)) = None \<longrightarrow>
      verificar_cuenta (Some c) datos
        = (Inl (HTTPException 500 (Text ''Error interno.'')), Some (rollback c)))
   \<and> (fetchone (\<lambda>u. u_correo_electronico u = dv_correo datos) (usuarios (working c)) = Some u
        \<and> \<not> u_activo u \<and> u_codigo_verificacion u \<noteq> Some (dv_codigo datos) \<longrightarrow>
      verificar_cuenta (Some c) datos
        = (Inl (HTTPException 500 (Text ''Error interno.'')), Some (rollback c)))
   \<and> (fetchone (\<lambda>u. u_correo_electronico u = dv_correo datos) (usuarios (working c)) = Some u
        \<and> \<not> u_activo u \<and> u_codigo_verificacion u = Some (dv_codigo datos) \<longrightarrow>
      (\<exists>c'. verificar_cuenta (Some c) datos = (Inr ''Cuenta activada!'', Some c')
         \<and> committed c' = working c'
         \<and> fetchone (\<lambda>u. u_correo_electronico u = dv_correo datos) (usuarios (committed c'))
             = Some (u\<lparr>u_activo := True\<rparr>)))"
  by (auto simp: verificar_cuenta_def verificar_cuenta_try_def commit_def execute_def
      fetchone_sql_update)

text \<open>
  On the example store: an unknown e-mail and Beto's wrong code are answered 500, Beto's
  right code activates his account.
\<close>

theorem verificar_cuenta_outcomes_example:
  "verificar_cuenta (Some ex_conn) \<lparr>dv_correo = ''nadie@x.mx'', dv_codigo = ''000000''\<rparr>
     = (Inl (HTTPException 500 (Text ''Error interno.'')), Some ex_conn)
   \<and> verificar_cuenta (Some ex_conn) \<lparr>dv_correo = ''beto@x.mx'', dv_codigo = ''000000''\<rparr>
     = (Inl (HTTPException 500 (Text ''Error interno.'')), Some ex_conn)
   \<and> fst (verificar_cuenta (Some ex_conn) \<lparr>dv_correo = ''beto@x.mx'', dv_codigo = ''123456''\<rparr>)
     = Inr ''Cuenta activada!''"
  using
    verificar_cuenta_outcomes [where c = ex_conn and u = ex_beto
      and datos = "\<lparr>dv_correo = ''nadie@x.mx'', dv_codigo = ''000000''\<rparr>"]
    verificar_cuenta_outcomes [where c = ex_conn and u = ex_beto
      and datos = "\<lparr>dv_correo = ''beto@x.mx'', dv_codigo = ''000000''\<rparr>"]
    verificar_cuenta_outcomes [where c = ex_conn and u = ex_beto
      and datos = "\<lparr>dv_correo = ''beto@x.mx'', dv_codigo = ''123456''\<rparr>"]
  by (auto simp: fetchone_def rollback_def ex_defs)

subsection \<open>Login\<close>

text \<open>
  Claim C3 (login of a locked account). For an active user and the right password: on the
  code, a lock-until timestamp strictly after \<open>now\<close> makes the login answer 500
  \<^verbatim>\<open>Error interno\<close>, because the 403 \<^verbatim>\<open>Cuenta bloqueada.\<close> raised in the body is caught
  by the handler's \<^verbatim>\<open>except Exception\<close>; once the timestamp is not after \<open>now\<close>, or once
  the admin action \<^verbatim>\<open>desbloquear\<close> has cleared it, the login succeeds.
\<close>

theorem login_locked_outcomes:
  assumes "fetchone (\<lambda>u. u_correo_electronico u = lr_correo datos) (usuarios (working c)) = Some u"
    and "u_activo u"
    and "verificar_password bc (lr_password datos) (u_password_hash u) = Inr True"
  shows "(\<forall>b. u_bloqueado_hasta u = Some b \<and> b > now \<longrightarrow>
            login bc now (Some c) datos = Inl (HTTPException 500 (Text ''Error interno'')))
       \<and> (\<forall>b. u_bloqueado_hasta u = Some b \<and> b \<le> now \<longrightarrow>
            (\<exists>r. login bc now (Some c) datos = Inr r \<and> lu_id r = u_id u))
       \<and> (\<forall>t c'. snd (admin_accion_usuario t (Some c)
                     \<lparr>aa_usuario_id = u_id u, aa_accion = ''desbloquear'', aa_dias_bloqueo = dias\<rparr>)
                   = Some c' \<longrightarrow>
            (\<exists>r. login bc now (Some c') datos = Inr r \<and> lu_id r = u_id u))"
proof -
  have unlock: "fetchone (\<lambda>u. u_correo_electronico u = lr_correo datos)
          (sql_update (\<lambda>r. u_id r = u_id u) (\<lambda>r. r\<lparr>u_bloqueado_hasta := None\<rparr>)
             (usuarios (working c)))
        = Some (u\<lparr>u_bloqueado_hasta := None\<rparr>)"
    using assms(1) by (simp add: fetchone_sql_update)
  show ?thesis
    using assms unlock
    by (auto simp: login_def login_try_def Let_def admin_accion_usuario_def
        admin_accion_usuario_try_def commit_def execute_def update_bloqueado_hasta_def)
qed

text \<open>
  On the example store Ana is locked until 2000: her login at 1000 is answered 500, her
  login at 3000 succeeds, and so does her login at 1000 after \<^verbatim>\<open>desbloquear\<close>.
\<close>

theorem login_locked_outcomes_example:
  "login ex_bcrypt 1000 (Some ex_conn) \<lparr>lr_correo = ''ana@x.mx'', lr_password = [0x73, 0x33]\<rparr>
     = Inl (HTTPException 500 (Text ''Error interno''))
   \<and> login ex_bcrypt 3000 (Some ex_conn) \<lparr>lr_correo = ''ana@x.mx'', lr_password = [0x73, 0x33]\<rparr>
     = Inr \<lparr>lu_id = ''u1'', lu_nombre = ''Ana'', lu_es_admin = False, lu_es_trabajador = False\<rparr>
   \<and> login ex_bcrypt 1000
        (snd (admin_accion_usuario 1000 (Some ex_conn)
           \<lparr>aa_usuario_id = ''u1'', aa_accion = ''desbloquear'', aa_dias_bloqueo = Some 0\<rparr>))
        \<lparr>lr_correo = ''ana@x.mx'', lr_password = [0x73, 0x33]\<rparr>
     = Inr \<lparr>lu_id = ''u1'', lu_nombre = ''Ana'', lu_es_admin = False, lu_es_trabajador = False\<rparr>"
  using login_locked_outcomes [where c = ex_conn and u = ex_ana and bc = ex_bcrypt
      and now = 1000 and dias = "Some 0"
      and datos = "\<lparr>lr_correo = ''ana@x.mx'', lr_password = [0x73, 0x33]\<rparr>"]
  by (simp add: login_def login_try_def fetchone_def verificar_password_def password_bytes_def
      utf8_char_def admin_accion_usuario_def admin_accion_usuario_try_def commit_def
      execute_def update_bloqueado_hasta_def sql_update_def ex_defs)

text \<open>
  Claim C6 (no leak between a wrong password and an unknown e-mail). A login with a known
  e-mail and a password that does not verify (bcrypt answers false, or raises), and a
  login with an e-mail that no user has, get the same answer, status and detail alike:
  both 401 are replaced by the handler's 500 \<^verbatim>\<open>Error interno\<close>.
\<close>

theorem login_same_error:
  assumes "fetchone (\<lambda>u. u_correo_electronico u = lr_correo d1) (usuarios (working c)) = Some u"
    and "verificar_password bc (lr_password d1) (u_password_hash u) \<noteq> Inr True"
    and "fetchone (\<lambda>u. u_correo_electronico u = lr_correo d2) (usuarios (working c)) = None"
  shows "login bc now (Some c) d1 = login bc now' (Some c) d2
       \<and> login bc now (Some c) d1 = Inl (HTTPException 500 (Text ''Error interno''))"
  using assms by (auto simp: login_def login_try_def split: sum.splits)

theorem login_same_error_example:
  "login ex_bcrypt 3000 (Some ex_conn) \<lparr>lr_correo = ''ana@x.mx'', lr_password = [0x78]\<rparr>
     = login ex_bcrypt 3000 (Some ex_conn) \<lparr>lr_correo = ''nadie@x.mx'', lr_password = [0x78]\<rparr>
   \<and> login ex_bcrypt 3000 (Some ex_conn) \<lparr>lr_correo = ''ana@x.mx'', lr_password = [0x78]\<rparr>
     = Inl (HTTPException 500 (Text ''Error interno''))"
  using login_same_error [where c = ex_conn and u = ex_ana and bc = ex_bcrypt
      and now = 3000 and now' = 3000
      and ?d1.0 = "\<lparr>lr_correo = ''ana@x.mx'', lr_password = [0x78]\<rparr>"
      and ?d2.0 = "\<lparr>lr_correo = ''nadie@x.mx'', lr_password = [0x78]\<rparr>"]
  by (simp add: login_def login_try_def fetchone_def verificar_password_def password_bytes_def
      utf8_char_def ex_defs)

subsection \<open>Password hashing\<close>

text \<open>
  Claim C8 (hashing and verification operate on the 72-byte prefix of the password). On
  the code, both helpers slice the string before they encode it: what they hand to bcrypt
  is the UTF-8 encoding \<open>pb\<close> of the first 72 characters (code points) of the password.
  For every bcrypt, hashing applies \<^verbatim>\<open>hashpw\<close> to \<open>pb\<close> and the drawn salt, and verifying
  applies \<^verbatim>\<open>checkpw\<close> to \<open>pb\<close> and the encoded hash. When the first 72 characters are ASCII,
  \<open>pb\<close> is those characters and has at most 72 bytes; when the password has at least 72
  characters and one of the first 72 is not ASCII, \<open>pb\<close> has more than 72 bytes (never
  more than 288), so it is not a 72-byte prefix.
\<close>

theorem password_helpers_hand_72_characters:
  assumes "utf8_encode (take 72 p) = Inr pb"
  shows "encriptar_password bc p
           = (case hashpw bc pb (gensalt bc) of Inl e \<Rightarrow> Inl e | Inr hashed \<Rightarrow> utf8_decode hashed)
       \<and> (\<forall>hb. utf8_encode h = Inr hb \<longrightarrow> verificar_password bc p h = checkpw bc pb hb)
       \<and> ((\<forall>c\<in>set (take 72 p). c < 0x80) \<longrightarrow> pb = map of_nat (take 72 p) \<and> length pb \<le> 72)
       \<and> (72 \<le> length p \<and> (\<exists>c\<in>set (take 72 p). 0x80 \<le> c) \<longrightarrow> 72 < length pb)
       \<and> length pb \<le> 288"
proof -
  have len: "length (take 72 p) \<le> length pb \<and> length pb \<le> 4 * length (take 72 p)
       \<and> ((\<exists>c\<in>set (take 72 p). 0x80 \<le> c) \<longrightarrow> length (take 72 p) < length pb)"
    using utf8_encode_length[OF assms] .
  have ascii: "pb = map of_nat (take 72 p)" if "\<forall>c\<in>set (take 72 p). c < 0x80"
    using utf8_encode_ascii[OF that] assms by simp
  have a: "encriptar_password bc p
      = (case hashpw bc pb (gensalt bc) of Inl e \<Rightarrow> Inl e | Inr hashed \<Rightarrow> utf8_decode hashed)"
    by (simp add: encriptar_password_def password_bytes_def assms)
  have b: "\<forall>hb. utf8_encode h = Inr hb \<longrightarrow> verificar_password bc p h = checkpw bc pb hb"
    by (simp add: verificar_password_def password_bytes_def assms)
  have c: "(\<forall>c\<in>set (take 72 p). c < 0x80) \<longrightarrow> pb = map of_nat (take 72 p) \<and> length pb \<le> 72"
    using ascii by auto
  have d: "72 \<le> length p \<and> (\<exists>c\<in>set (take 72 p). 0x80 \<le> c) \<longrightarrow> 72 < length pb"
    using len by auto
  have e: "length pb \<le> 288"
    using len by auto
  show ?thesis using a b c d e by blast
qed

text \<open>
  The password of 72 letters U+00E9 is handed to bcrypt as the 144 bytes of its encoding,
  both when it is hashed and when it is verified.
\<close>

theorem password_helpers_hand_72_characters_example:
  "encriptar_password ex_bcrypt (replicate 72 0xE9)
     = utf8_decode (concat (replicate 72 [0xC3, 0xA9]))
   \<and> verificar_password ex_bcrypt (replicate 72 0xE9) [0x61]
     = checkpw ex_bcrypt (concat (replicate 72 [0xC3, 0xA9])) [0x61]
   \<and> 72 < length (concat (replicate 72 [0xC3, 0xA9 :: byte]))
   \<and> length (concat (replicate 72 [0xC3, 0xA9 :: byte])) = 144"
  using password_helpers_hand_72_characters [where p = "replicate 72 0xE9"
      and pb = "concat (replicate 72 [0xC3, 0xA9])" and bc = ex_bcrypt and h = "[0x61]"]
  by (simp add: utf8_encode_replicate_E9 utf8_char_def ex_bcrypt_def length_concat
      sum_list_replicate)

subsection \<open>The states of a service request\<close>

text \<open>
  Claim C4, as amended (the two transitions carry no guard on the current state). When at
  most one proposal has the given id, the hire operation succeeds and sets the state of
  every request with the given id to \<^verbatim>\<open>EN_PROCESO\<close>, whatever its state was, and leaves the
  state of every other request as it was; when a request with the given id exists and the
  review text holds no NUL character, the completion operation succeeds and sets its
  state to \<^verbatim>\<open>TERMINADO\<close>, whatever its state was, and leaves the state of every other
  request as it was.
\<close>

theorem estado_transitions_unguarded:
  "(length (filter (\<lambda>p. p_id p = ap_propuesta_id ap) (propuestas (working c))) \<le> 1 \<longrightarrow>
      (\<exists>c'. contratar_trabajador (Some c) ap = (Inr ''Contratado!'', Some c')
         \<and> committed c' = working c'
         \<and> map s_estado (servicios (committed c'))
             = map (\<lambda>s. if s_id s = ap_servicio_id ap then ''EN_PROCESO'' else s_estado s)
                 (servicios (working c))))
   \<and> (filter (\<lambda>s. s_id s = cs_servicio_id cs) (servicios (working c)) \<noteq> []
        \<and> CHR 0x00 \<notin> set (cs_resena cs) \<longrightarrow>
      (\<exists>c'. finalizar_servicio nm (Some c) cs = (Inr ''Finalizado y calificado'', Some c')
         \<and> committed c' = working c'
         \<and> map s_estado (servicios (committed c'))
             = map (\<lambda>s. if s_id s = cs_servicio_id cs then ''TERMINADO'' else s_estado s)
                 (servicios (working c))))"
proof -
  have fin: "fetchone (\<lambda>s. s_id s = cs_servicio_id cs)
         (sql_update (\<lambda>s. s_id s = cs_servicio_id cs)
            (\<lambda>s. s\<lparr>s_estado := ''TERMINADO'', s_calificacion := Some (cs_calificacion cs),
                   s_resena := Some (cs_resena cs)\<rparr>) (servicios (working c))) \<noteq> None"
    if "filter (\<lambda>s. s_id s = cs_servicio_id cs) (servicios (working c)) \<noteq> []"
    using that by (simp add: fetchone_sql_update_same fetchone_None_iff)
  have a: "length (filter (\<lambda>p. p_id p = ap_propuesta_id ap) (propuestas (working c))) \<le> 1 \<Longrightarrow>
      (\<exists>c'. contratar_trabajador (Some c) ap = (Inr ''Contratado!'', Some c')
         \<and> committed c' = working c'
         \<and> map s_estado (servicios (committed c'))
             = map (\<lambda>s. if s_id s = ap_servicio_id ap then ''EN_PROCESO'' else s_estado s)
                 (servicios (working c)))"
    by (simp add: contratar_trabajador_def contratar_trabajador_try_def Let_def commit_def
        execute_def update_servicios_contratar_def update_propuestas_aceptada_def sql_update_def)
  have b: "filter (\<lambda>s. s_id s = cs_servicio_id cs) (servicios (working c)) \<noteq> []
        \<Longrightarrow> CHR 0x00 \<notin> set (cs_resena cs) \<Longrightarrow>
      (\<exists>c'. finalizar_servicio nm (Some c) cs = (Inr ''Finalizado y calificado'', Some c')
         \<and> committed c' = working c'
         \<and> map s_estado (servicios (committed c'))
             = map (\<lambda>s. if s_id s = cs_servicio_id cs then ''TERMINADO'' else s_estado s)
                 (servicios (working c)))"
    using fin
    by (auto simp: finalizar_servicio_def finalizar_servicio_try_def adapt_str_def Let_def
        commit_def execute_def update_servicios_finalizar_def
        update_detalles_trabajador_stats_def sql_update_def split: option.splits)
  show ?thesis using a b by blast
qed

text \<open>
  On the example store: hiring on the requested service \<open>s4\<close> puts it in progress, and
  completing the service \<open>s3\<close>, which is in progress, terminates it.
\<close>

theorem estado_transitions_unguarded_example:
  "map_prod id (map_option (map s_estado \<circ> servicios \<circ> committed))
     (contratar_trabajador (Some ex_conn)
        \<lparr>ap_servicio_id = ''s4'', ap_trabajador_id = ''w1'', ap_propuesta_id = ''p1''\<rparr>)
     = (Inr ''Contratado!'', Some [''TERMINADO'', ''TERMINADO'', ''EN_PROCESO'', ''EN_PROCESO''])
   \<and> map_prod id (map_option (map s_estado \<circ> servicios \<circ> committed))
     (finalizar_servicio ex_numerics (Some ex_conn)
        \<lparr>cs_servicio_id = ''s3'', cs_calificacion = 4, cs_resena = ''bien''\<rparr>)
     = (Inr ''Finalizado y calificado'',
        Some [''TERMINADO'', ''TERMINADO'', ''TERMINADO'', ''SOLICITADO''])"
  using estado_transitions_unguarded [where c = ex_conn and nm = ex_numerics
      and ap = "\<lparr>ap_servicio_id = ''s4'', ap_trabajador_id = ''w1'', ap_propuesta_id = ''p1''\<rparr>"
      and cs = "\<lparr>cs_servicio_id = ''s3'', cs_calificacion = 4, cs_resena = ''bien''\<rparr>"]
  by (auto simp: ex_defs)

text \<open>
  The claim as stated fails: on the example store the hire operation takes the terminated
  service \<open>s1\<close> back to \<^verbatim>\<open>EN_PROCESO\<close>, and the completion operation takes the requested
  service \<open>s4\<close>, which was never in progress, to \<^verbatim>\<open>TERMINADO\<close>.
\<close>

theorem estado_state_machine_counterexample:
  "map_prod id (map_option (map s_estado \<circ> servicios \<circ> committed))
     (contratar_trabajador (Some ex_conn)
        \<lparr>ap_servicio_id = ''s1'', ap_trabajador_id = ''w1'', ap_propuesta_id = ''p1''\<rparr>)
     = (Inr ''Contratado!'', Some [''EN_PROCESO'', ''TERMINADO'', ''EN_PROCESO'', ''SOLICITADO''])
   \<and> map_prod id (map_option (map s_estado \<circ> servicios \<circ> committed))
     (finalizar_servicio ex_numerics (Some ex_conn)
        \<lparr>cs_servicio_id = ''s4'', cs_calificacion = 4, cs_resena = ''bien''\<rparr>)
     = (Inr ''Finalizado y calificado'',
        Some [''TERMINADO'', ''TERMINADO'', ''EN_PROCESO'', ''TERMINADO''])"
  by (simp add: contratar_trabajador_def contratar_trabajador_try_def finalizar_servicio_def
      finalizar_servicio_try_def adapt_str_def Let_def commit_def execute_def fetchone_def
      sql_update_def update_servicios_contratar_def update_propuestas_aceptada_def
      update_servicios_finalizar_def update_detalles_trabajador_stats_def ex_defs)

subsection \<open>Completion and rating\<close>

text \<open>
  Claim C5 (the completion recomputes the worker's average over all rated requests). Let
  the service ids be distinct, let the completed service be assigned to the worker \<open>w\<close>,
  let the review text hold no NUL character, and let \<open>others\<close> be the ratings of the rows
  of \<^verbatim>\<open>servicios\<close> other than the completed one whose worker is \<open>w\<close> and whose rating is
  not NULL. With \<open>suma\<close> the sum of \<open>others\<close> and the new rating, and \<open>n\<close> the length of
  \<open>others\<close> plus one: the completion succeeds and commits; the detail row of \<open>w\<close> gets
  the evaluation count \<open>n\<close> and, as its average, the double of the numeric that the store
  returns for \<open>suma\<close> over \<open>n\<close>; the detail rows of other workers are unchanged. Where the
  two roundings are exact on that quotient, the average stored is \<open>suma / n\<close>.
\<close>

theorem finalizar_recomputes_average:
  assumes "distinct (map s_id (servicios (working c)))"
    and "s \<in> set (servicios (working c))"
    and "s_id s = cs_servicio_id datos"
    and "s_trabajador_id s = Some w"
    and "CHR 0x00 \<notin> set (cs_resena datos)"
    and "map s_calificacion
           (filter (\<lambda>x. s_id x \<noteq> cs_servicio_id datos \<and> s_trabajador_id x = Some w
                        \<and> s_calificacion x \<noteq> None)
              (servicios (working c)))
         = map Some others"
    and "suma = sum_list others + cs_calificacion datos"
    and "n = int (length others) + 1"
  shows "\<exists>c'. finalizar_servicio nm (Some c) datos = (Inr ''Finalizado y calificado'', Some c')
           \<and> committed c' = working c'
           \<and> detalles_trabajador (committed c')
               = map (\<lambda>r. if dt_usuario_id r = w
                          then r\<lparr>dt_calificacion_promedio :=
                                   (if avg_numeric nm suma n = 0 then 0
                                    else py_float nm (avg_numeric nm suma n)),
                                 dt_total_evaluaciones := n\<rparr>
                          else r)
                   (detalles_trabajador (working c))
           \<and> (avg_numeric nm suma n = real_of_int suma / real_of_int n
                \<and> py_float nm (real_of_int suma / real_of_int n)
                    = real_of_int suma / real_of_int n \<longrightarrow>
              detalles_trabajador (committed c')
               = map (\<lambda>r. if dt_usuario_id r = w
                          then r\<lparr>dt_calificacion_promedio := real_of_int suma / real_of_int n,
                                 dt_total_evaluaciones := n\<rparr>
                          else r)
                   (detalles_trabajador (working c)))"
proof -
  obtain xs ys where rows: "servicios (working c) = xs @ s # ys"
    using assms(2) by (meson split_list)
  have xs: "cs_servicio_id datos \<notin> s_id ` set xs" and ys: "cs_servicio_id datos \<notin> s_id ` set ys"
    using assms(1,3) unfolding rows by auto
  have keep: "filter (\<lambda>x. s_id x \<noteq> cs_servicio_id datos \<and> s_trabajador_id x = Some w
                          \<and> s_calificacion x \<noteq> None) zs
        = filter (\<lambda>x. s_trabajador_id x = Some w \<and> s_calificacion x \<noteq> None) zs"
    if "cs_servicio_id datos \<notin> s_id ` set zs" for zs
    using that by (induction zs) auto
  have "filter (\<lambda>x. s_id x \<noteq> cs_servicio_id datos \<and> s_trabajador_id x = Some w
                      \<and> s_calificacion x \<noteq> None) (servicios (working c))
        = filter (\<lambda>x. s_trabajador_id x = Some w \<and> s_calificacion x \<noteq> None) (xs @ ys)"
    unfolding rows using assms(3) by (simp add: keep[OF xs] keep[OF ys] del: not_None_eq)
  then have "map s_calificacion
          (filter (\<lambda>x. s_trabajador_id x = Some w \<and> s_calificacion x \<noteq> None) (xs @ ys))
        = map Some others"
    using assms(6) by (simp only:)
  then have others: "calificaciones (Some w) (xs @ ys) = others"
    by (rule calificaciones_eq)
  have suma: "suma = sum_list (calificaciones (Some w) (xs @ ys)) + cs_calificacion datos"
    and n: "n = int (length (calificaciones (Some w) (xs @ ys))) + 1"
    unfolding others using assms(7,8) by simp_all
  show ?thesis
    unfolding finalizar_servicio_def
    by (simp add: finalizar_servicio_try_split[OF rows xs ys assms(3,4,5) suma n] commit_def
        execute_def update_detalles_trabajador_stats_def update_servicios_finalizar_def
        sql_update_def eq_commute[of _ w])
qed

text \<open>
  On the example store the worker \<open>w1\<close> has the ratings 5 and 3; completing \<open>s3\<close> with the
  rating 4 leaves the average 4 and the evaluation count 3.
\<close>

theorem finalizar_recomputes_average_example:
  "map_prod id (map_option (detalles_trabajador \<circ> committed))
     (finalizar_servicio ex_numerics (Some ex_conn)
        \<lparr>cs_servicio_id = ''s3'', cs_calificacion = 4, cs_resena = ''bien''\<rparr>)
     = (Inr ''Finalizado y calificado'',
        Some [\<lparr>dt_usuario_id = ''w1'', dt_calificacion_promedio = 4,
               dt_total_evaluaciones = 3, dt_validado_por_admin = False\<rparr>])"
  using finalizar_recomputes_average [where c = ex_conn and w = "''w1''" and others = "[5, 3]"
      and nm = ex_numerics and suma = 12 and n = 3
      and s = "\<lparr>s_id = ''s3'', s_trabajador_id = Some ''w1'', s_estado = ''EN_PROCESO'',
                s_precio_estimado = Some 90, s_calificacion = None, s_resena = None\<rparr>"
      and datos = "\<lparr>cs_servicio_id = ''s3'', cs_calificacion = 4, cs_resena = ''bien''\<rparr>"]
  by (auto simp: ex_defs)

subsection \<open>Proposals\<close>

text \<open>
  Claim C7 (one proposal per service request and worker). When no proposal of the worker
  on the request is stored and the message holds no NUL character, the submission
  succeeds, commits and inserts exactly one row, after which exactly one row for the pair
  exists and every further submission by the same worker on the same request, whatever
  its price and message, fails with 400 \<^verbatim>\<open>Ya te has postulado.\<close> and leaves the store as
  it is; when a proposal of the pair is stored, the submission fails in that way. A first
  submission whose message holds a NUL character is refused by the driver: it is answered
  500 \<^verbatim>\<open>Error propuesta\<close> and rolled back.
\<close>

theorem crear_propuesta_duplicate:
  "(filter (\<lambda>p. p_servicio_id p = cp_servicio_id datos \<and> p_trabajador_id p = cp_trabajador_id datos)
       (propuestas (working c)) = []
     \<and> CHR 0x00 \<notin> set (cp_mensaje datos) \<longrightarrow>
     (\<exists>c1. crear_propuesta df (Some c) datos = (Inr ''Propuesta enviada'', Some c1)
        \<and> committed c1 = working c1
        \<and> length (filter (\<lambda>p. p_servicio_id p = cp_servicio_id datos
                              \<and> p_trabajador_id p = cp_trabajador_id datos)
                    (propuestas (committed c1))) = 1
        \<and> length (propuestas (committed c1)) = length (propuestas (working c)) + 1
        \<and> (\<forall>df2 precio mensaje.
              crear_propuesta df2 (Some c1)
                  (datos\<lparr>cp_precio_oferta := precio, cp_mensaje := mensaje\<rparr>)
                = (Inl (HTTPException 400 (Text ''Ya te has postulado.'')), Some c1))))
   \<and> (filter (\<lambda>p. p_servicio_id p = cp_servicio_id datos \<and> p_trabajador_id p = cp_trabajador_id datos)
       (propuestas (working c)) \<noteq> [] \<longrightarrow>
     crear_propuesta df (Some c) datos
       = (Inl (HTTPException 400 (Text ''Ya te has postulado.'')), Some c))
   \<and> (filter (\<lambda>p. p_servicio_id p = cp_servicio_id datos \<and> p_trabajador_id p = cp_trabajador_id datos)
       (propuestas (working c)) = []
     \<and> CHR 0x00 \<in> set (cp_mensaje datos) \<longrightarrow>
     crear_propuesta df (Some c) datos
       = (Inl (HTTPException 500 (Text ''Error propuesta'')), Some (rollback c)))"
  by (auto simp: crear_propuesta_def crear_propuesta_try_def adapt_str_def fetchone_def
      commit_def execute_def insert_propuesta_def split: list.splits)

text \<open>
  On the example store the worker \<open>w2\<close> bids on \<open>s4\<close> and then bids again; the second bid
  is refused and one row of the pair is stored.
\<close>

theorem crear_propuesta_duplicate_example:
  "fst (crear_propuesta \<lparr>pd_id = ''p2'', pd_aceptada = False\<rparr> (Some ex_conn)
          \<lparr>cp_servicio_id = ''s4'', cp_trabajador_id = ''w2'', cp_precio_oferta = 200,
            cp_mensaje = ''voy''\<rparr>) = Inr ''Propuesta enviada''
   \<and> fst (crear_propuesta \<lparr>pd_id = ''p3'', pd_aceptada = False\<rparr>
          (snd (crear_propuesta \<lparr>pd_id = ''p2'', pd_aceptada = False\<rparr> (Some ex_conn)
             \<lparr>cp_servicio_id = ''s4'', cp_trabajador_id = ''w2'', cp_precio_oferta = 200,
               cp_mensaje = ''voy''\<rparr>))
          \<lparr>cp_servicio_id = ''s4'', cp_trabajador_id = ''w2'', cp_precio_oferta = 150,
            cp_mensaje = ''otra''\<rparr>)
       = Inl (HTTPException 400 (Text ''Ya te has postulado.''))
   \<and> map_option (map p_id \<circ> propuestas \<circ> committed)
       (snd (crear_propuesta \<lparr>pd_id = ''p3'', pd_aceptada = False\<rparr>
          (snd (crear_propuesta \<lparr>pd_id = ''p2'', pd_aceptada = False\<rparr> (Some ex_conn)
             \<lparr>cp_servicio_id = ''s4'', cp_trabajador_id = ''w2'', cp_precio_oferta = 200,
               cp_mensaje = ''voy''\<rparr>))
          \<lparr>cp_servicio_id = ''s4'', cp_trabajador_id = ''w2'', cp_precio_oferta = 150,
            cp_mensaje = ''otra''\<rparr>))
       = Some [''p1'', ''p2'']"
  using crear_propuesta_duplicate [where c = ex_conn
      and df = "\<lparr>pd_id = ''p2'', pd_aceptada = False\<rparr>"
      and datos = "\<lparr>cp_servicio_id = ''s4'', cp_trabajador_id = ''w2'', cp_precio_oferta = 200,
                    cp_mensaje = ''voy''\<rparr>"]
  by (simp add: crear_propuesta_def crear_propuesta_try_def adapt_str_def fetchone_def
      commit_def execute_def insert_propuesta_def ex_defs)

subsection \<open>Hiring with ids that match no row\<close>

text \<open>
  Claim C9 (the hire succeeds on ids that match nothing). When no service request has the
  given service id, or no proposal has the given proposal id, the hire operation raises no
  error: it commits and returns the success response \<^verbatim>\<open>Contratado!\<close> of a real hire; the
  table whose id matched nothing is left as it was.
\<close>

theorem contratar_zero_rows:
  assumes "filter (\<lambda>s. s_id s = ap_servicio_id ap) (servicios (working c)) = []
         \<or> filter (\<lambda>p. p_id p = ap_propuesta_id ap) (propuestas (working c)) = []"
  shows "\<exists>c'. contratar_trabajador (Some c) ap = (Inr ''Contratado!'', Some c')
           \<and> committed c' = working c'
           \<and> (filter (\<lambda>s. s_id s = ap_servicio_id ap) (servicios (working c)) = []
                \<longrightarrow> servicios (working c') = servicios (working c))
           \<and> (filter (\<lambda>p. p_id p = ap_propuesta_id ap) (propuestas (working c)) = []
                \<longrightarrow> propuestas (working c') = propuestas (working c))"
  using assms
  by (auto simp: contratar_trabajador_def contratar_trabajador_try_def Let_def commit_def
      execute_def update_servicios_contratar_def update_propuestas_aceptada_def sql_update_none)

text \<open>On the example store, a hire on ids that nothing has succeeds and changes nothing.\<close>

theorem contratar_zero_rows_example:
  "contratar_trabajador (Some ex_conn)
     \<lparr>ap_servicio_id = ''s9'', ap_trabajador_id = ''w1'', ap_propuesta_id = ''p9''\<rparr>
     = (Inr ''Contratado!'', Some ex_conn)"
  using contratar_zero_rows [where c = ex_conn
      and ap = "\<lparr>ap_servicio_id = ''s9'', ap_trabajador_id = ''w1'', ap_propuesta_id = ''p9''\<rparr>"]
  by (simp add: contratar_trabajador_def contratar_trabajador_try_def Let_def commit_def
      execute_def update_servicios_contratar_def update_propuestas_aceptada_def sql_update_def
      ex_defs)

subsection \<open>Locking for zero days\<close>

text \<open>
  Claim C10 (a lock of 0 days is a lock of 36500 days). For the action \<^verbatim>\<open>bloquear\<close>, at an
  instant from which 36500 days stay within the range of \<^verbatim>\<open>datetime\<close>, a request with
  \<^verbatim>\<open>dias_bloqueo\<close> equal to 0 has the same effect and answer as one with no value and as
  one that leaves the field out: it succeeds, commits and sets the lock-until timestamp of
  the user to \<open>now\<close> plus 36500 days.
\<close>

theorem bloquear_cero_dias:
  assumes "aa_accion datos = ''bloquear''" and "0 \<le> now"
    and "now + 36500 * 86400000000 \<le> datetime_max"
  shows "admin_accion_usuario now (Some c) (datos\<lparr>aa_dias_bloqueo := Some 0\<rparr>)
           = admin_accion_usuario now (Some c) (datos\<lparr>aa_dias_bloqueo := None\<rparr>)
       \<and> admin_accion_usuario now (Some c) (datos\<lparr>aa_dias_bloqueo := Some 0\<rparr>)
           = admin_accion_usuario now (Some c)
               (datos\<lparr>aa_dias_bloqueo := AccionAdmin_default_dias_bloqueo\<rparr>)
       \<and> (\<exists>r c'. admin_accion_usuario now (Some c) (datos\<lparr>aa_dias_bloqueo := Some 0\<rparr>)
                    = (Inr r, Some c')
            \<and> committed c' = working c'
            \<and> usuarios (committed c')
                = map (\<lambda>u. if u_id u = aa_usuario_id datos
                           then u\<lparr>u_bloqueado_hasta := Some (now + 36500 * 86400000000)\<rparr> else u)
                    (usuarios (working c)))"
  using assms
  by (simp add: admin_accion_usuario_def admin_accion_usuario_try_def Let_def bind_exn_def
      timedelta_days_def datetime_add_def commit_def execute_def update_bloqueado_hasta_def
      sql_update_def AccionAdmin_default_dias_bloqueo_def)

text \<open>On the example store, locking Beto for 0 days at the instant 1000.\<close>

theorem bloquear_cero_dias_example:
  "map_prod id (map_option (map u_bloqueado_hasta \<circ> usuarios \<circ> committed))
     (admin_accion_usuario 1000 (Some ex_conn)
        \<lparr>aa_usuario_id = ''u2'', aa_accion = ''bloquear'', aa_dias_bloqueo = Some 0\<rparr>)
     = (Inr ''Accion 'bloquear' ejecutada.'', Some [Some 2000, Some 3153600000001000])"
  using bloquear_cero_dias [where c = ex_conn and now = 1000
      and datos = "\<lparr>aa_usuario_id = ''u2'', aa_accion = ''bloquear'', aa_dias_bloqueo = Some 0\<rparr>"]
  by (simp add: admin_accion_usuario_def admin_accion_usuario_try_def Let_def bind_exn_def
      timedelta_days_def datetime_add_def datetime_max_def commit_def execute_def
      update_bloqueado_hasta_def sql_update_def AccionAdmin_default_dias_bloqueo_def ex_defs)

end
